theory Spec2Isabelle
  imports Main
begin

section \<open>Python values, strings and documents\<close>

text \<open>
  The chat endpoint \<^verbatim>\<open>ChatView.post\<close> works on the dictionaries the query engine returns.
  A document value is \<^verbatim>\<open>None\<close>, a string, or a number. The test
  \<^verbatim>\<open>isinstance(v, (int, float))\<close> of the view is true exactly of the numbers; in Python that
  includes \<^verbatim>\<open>bool\<close>, a subclass of \<^verbatim>\<open>int\<close>. A float is kept as the three observations
  the view makes of it: whether it is non-zero (its truth value), \<^verbatim>\<open>str(v)\<close> and
  \<^verbatim>\<open>format(v, ',')\<close>.
\<close>

datatype number =
    NBool bool
  | NInt int
  | NFloat (float_nonzero: bool) (float_str: string) (float_comma: string)

datatype pyvalue = VNone | VNum number | VStr string

type_synonym document = "(string \<times> pyvalue) list"

text \<open>
  Strings are byte sequences (UTF-8); the placeholders the view looks for are ASCII, so
  replacing on bytes and on code points agree.

  Decimal digits of a natural number, as \<^verbatim>\<open>str\<close> prints them.
\<close>

definition digit_char :: "nat \<Rightarrow> char" where
  "digit_char d = ''0123456789'' ! d"

function str_nat :: "nat \<Rightarrow> string" where
  "str_nat n = (if n < 10 then [digit_char n] else str_nat (n div 10) @ [digit_char (n mod 10)])"
  by pat_completeness auto
termination
  by (relation "measure (\<lambda>n. n)") auto

declare str_nat.simps [simp del]

definition str_int :: "int \<Rightarrow> string" where
  "str_int i = (if i < 0 then CHR ''-'' # str_nat (nat (- i)) else str_nat (nat i))"

text \<open>\<^verbatim>\<open>format(n, ',')\<close>: groups of three digits from the right, separated by commas.\<close>

definition pad3 :: "nat \<Rightarrow> string" where
  "pad3 m = [digit_char (m div 100), digit_char (m div 10 mod 10), digit_char (m mod 10)]"

function comma_nat :: "nat \<Rightarrow> string" where
  "comma_nat n = (if n < 1000 then str_nat n else comma_nat (n div 1000) @ '','' @ pad3 (n mod 1000))"
  by pat_completeness auto
termination
  by (relation "measure (\<lambda>n. n)") auto

declare comma_nat.simps [simp del]

definition comma_int :: "int \<Rightarrow> string" where
  "comma_int i = (if i < 0 then CHR ''-'' # comma_nat (nat (- i)) else comma_nat (nat i))"

fun str_number :: "number \<Rightarrow> string" where
  "str_number (NBool b) = (if b then ''True'' else ''False'')"
| "str_number (NInt i) = str_int i"
| "str_number (NFloat nz s c) = s"

fun format_comma :: "number \<Rightarrow> string" where
  "format_comma (NBool b) = (if b then ''1'' else ''0'')"
| "format_comma (NInt i) = comma_int i"
| "format_comma (NFloat nz s c) = c"

fun number_truthy :: "number \<Rightarrow> bool" where
  "number_truthy (NBool b) = b"
| "number_truthy (NInt i) = (i \<noteq> 0)"
| "number_truthy (NFloat nz s c) = nz"

fun py_str :: "pyvalue \<Rightarrow> string" where
  "py_str VNone = ''None''"
| "py_str (VNum n) = str_number n"
| "py_str (VStr s) = s"

fun py_truthy :: "pyvalue \<Rightarrow> bool" where
  "py_truthy VNone = False"
| "py_truthy (VNum n) = number_truthy n"
| "py_truthy (VStr s) = (s \<noteq> [])"

text \<open>
  \<^verbatim>\<open>s.replace(old, new)\<close>: every non-overlapping occurrence of \<^verbatim>\<open>old\<close>, scanning from the
  left. With an empty \<^verbatim>\<open>old\<close> Python inserts \<^verbatim>\<open>new\<close> before every character and at the
  end.
\<close>

function str_replace :: "string \<Rightarrow> string \<Rightarrow> string \<Rightarrow> string" where
  "str_replace old new s =
     (if old = [] then new @ concat (map (\<lambda>c. c # new) s)
      else if s = [] then []
      else if take (length old) s = old then new @ str_replace old new (drop (length old) s)
      else hd s # str_replace old new (tl s))"
  by pat_completeness auto
termination
  by (relation "measure (\<lambda>(old, new, s). length s)") auto

declare str_replace.simps [simp del]

text \<open>\<^verbatim>\<open>sep.join(parts)\<close>.\<close>

fun join :: "string \<Rightarrow> string list \<Rightarrow> string" where
  "join sep [] = []"
| "join sep [p] = p"
| "join sep (p # q # ps) = p @ sep @ join sep (q # ps)"

section \<open>The chat endpoint\<close>

text \<open>
  The oracle's answer \<^verbatim>\<open>ai_response\<close> is a dictionary; each field below is \<open>None\<close> when the
  key is absent (for the chart suggestion also when it is null: the default \<^verbatim>\<open>{}\<close> and
  \<^verbatim>\<open>None\<close> are both false in the test of line 209). A pipeline is a list of stages, each
  a dictionary with one key (\<^verbatim>\<open>$match\<close>, \<^verbatim>\<open>$group\<close>, ...) and its argument. The view
  passes the pipeline on unread, so the argument is kept as text.
\<close>

record stage =
  stage_key :: string
  stage_arg :: string

record ai_response =
  ai_error :: "pyvalue option"
  ai_pipeline :: "stage list option"
  ai_collection :: "string option"
  ai_answer_template :: "string option"
  ai_chart_suggestion :: "document option"

text \<open>
  What \<^verbatim>\<open>engine.execute\<close> returns: a dictionary with an \<^verbatim>\<open>error\<close> entry, or a \<^verbatim>\<open>type\<close>
  tag with the \<^verbatim>\<open>data\<close> of that shape (\<^verbatim>\<open>"dict"\<close> with one document, \<^verbatim>\<open>"list"\<close> with a list
  of documents, \<^verbatim>\<open>"empty"\<close>, or a tag the view has no branch for, with its documents).
\<close>

datatype execution_result =
    EError string
  | EDict document
  | EList "document list"
  | EEmpty
  | EOther string "document list"

text \<open>A collaborator either raises or returns.\<close>

datatype 'a outcome = Raises | Returns 'a

record chart_data =
  chart_type :: pyvalue
  chart_title :: pyvalue
  chart_labels :: "string list"
  chart_values :: "number list"

datatype response =
    Failure (status: nat) (answer: string)
  | Success (answer: string) (query_executed: "stage list option") (chart: "chart_data option")

text \<open>
  The scan for the first numeric field other than \<^verbatim>\<open>_id\<close>, in the stored order of the
  document (lines 163-166, 182-185, 198-201, 222-225).
\<close>

fun find_numeric :: "document \<Rightarrow> number option" where
  "find_numeric [] = None"
| "find_numeric ((k, VNum n) # rest) = (if k \<noteq> ''_id'' then Some n else find_numeric rest)"
| "find_numeric ((k, v) # rest) = find_numeric rest"

text \<open>Lines 168-171 and 186-189: the text of one document.\<close>

definition result_str :: "pyvalue \<Rightarrow> number option \<Rightarrow> string" where
  "result_str name numeric_val =
     (case numeric_val of
        None \<Rightarrow> py_str name
      | Some v \<Rightarrow> if number_truthy v then py_str name @ '' with '' @ format_comma v
                  else py_str name)"

text \<open>Lines 154-156: every \<^verbatim>\<open>{{key}}\<close> placeholder is replaced by the field's value.\<close>

fun fill_fields :: "document \<Rightarrow> string \<Rightarrow> string" where
  "fill_fields [] final_answer = final_answer"
| "fill_fields ((key, v) # rest) final_answer =
     fill_fields rest (str_replace (''{{'' @ key @ ''}}'') (py_str v) final_answer)"

text \<open>Lines 193-201: the list \<^verbatim>\<open>formatted\<close> grows by one entry per qualifying document.\<close>

fun format_docs :: "document list \<Rightarrow> string list \<Rightarrow> string list" where
  "format_docs [] formatted = formatted"
| "format_docs (doc # rest) formatted =
     (case map_of doc ''_id'' of
        None \<Rightarrow> format_docs rest formatted
      | Some name \<Rightarrow>
          (case find_numeric doc of
             None \<Rightarrow> format_docs rest formatted
           | Some v \<Rightarrow>
               format_docs rest (formatted @ [py_str name @ '' ('' @ format_comma v @ '')''])))"

text \<open>Lines 150-206: the answer, by result type.\<close>

definition format_answer :: "execution_result \<Rightarrow> string \<Rightarrow> string" where
  "format_answer r answer_template =
     (case r of
        EDict result_data \<Rightarrow>
          (if result_data \<noteq> [] then
             (let final_answer = fill_fields result_data answer_template in
              case map_of result_data ''_id'' of
                None \<Rightarrow> final_answer
              | Some name \<Rightarrow>
                  str_replace ''{result}'' (result_str name (find_numeric result_data)) final_answer)
           else answer_template)
      | EList result_data \<Rightarrow>
          (case result_data of
             [doc] \<Rightarrow>
               (case map_of doc ''_id'' of
                  None \<Rightarrow> answer_template
                | Some name \<Rightarrow>
                    str_replace ''{result}'' (result_str name (find_numeric doc)) answer_template)
           | _ \<Rightarrow> str_replace ''{result}'' (join '', '' (format_docs result_data [])) answer_template)
      | EEmpty \<Rightarrow> str_replace ''{result}'' ''No data found'' answer_template
      | _ \<Rightarrow> answer_template)"

text \<open>Lines 218-225: labels and values are appended document by document.\<close>

fun chart_loop :: "document list \<Rightarrow> chart_data \<Rightarrow> chart_data" where
  "chart_loop [] c = c"
| "chart_loop (doc # rest) c =
     (case map_of doc ''_id'' of
        None \<Rightarrow> chart_loop rest c
      | Some name \<Rightarrow>
          (let c1 = c\<lparr>chart_labels := chart_labels c @ [py_str name]\<rparr> in
           case find_numeric doc of
             None \<Rightarrow> chart_loop rest c1
           | Some v \<Rightarrow> chart_loop rest (c1\<lparr>chart_values := chart_values c1 @ [v]\<rparr>)))"

text \<open>Lines 209-225: the chart, or \<^verbatim>\<open>None\<close>.\<close>

definition build_chart :: "document option \<Rightarrow> execution_result \<Rightarrow> chart_data option" where
  "build_chart chart_suggestion r =
     (case chart_suggestion of
        None \<Rightarrow> None
      | Some cs \<Rightarrow>
          (if cs = [] then None
           else case map_of cs ''type'' of
             None \<Rightarrow> None
           | Some ty \<Rightarrow>
               (if \<not> py_truthy ty then None
                else case r of
                  EList result_data \<Rightarrow>
                    (if length result_data \<ge> 3 then
                       Some (chart_loop result_data
                         \<lparr>chart_type = ty,
                          chart_title = (case map_of cs ''title'' of
                                           None \<Rightarrow> VStr ''Analysis'' | Some t \<Rightarrow> t),
                          chart_labels = [], chart_values = []\<rparr>)
                     else None)
                | _ \<Rightarrow> None)))"

text \<open>Lines 128-129: the defaults of \<^verbatim>\<open>ai_response.get\<close>.\<close>

definition collection_of :: "ai_response \<Rightarrow> string" where
  "collection_of ai = (case ai_collection ai of None \<Rightarrow> ''deliverywise'' | Some c \<Rightarrow> c)"

definition template_of :: "ai_response \<Rightarrow> string" where
  "template_of ai = (case ai_answer_template ai of None \<Rightarrow> ''{result}'' | Some t \<Rightarrow> t)"

text \<open>
  \<^verbatim>\<open>ChatView.post\<close> from the oracle's answer on (lines 117-240). The engine is a parameter:
  given the pipeline and the collection it returns its outcome together with the calls it
  made to the store. The function returns the response and the store calls of the request.
\<close>

definition post ::
  "(stage list option \<Rightarrow> string \<Rightarrow> execution_result outcome \<times> 'c list) \<Rightarrow>
   ai_response outcome \<Rightarrow> response \<times> 'c list" where
  "post engine_execute oracle =
     (case oracle of
        Raises \<Rightarrow> (Failure 500 ''An unexpected error occurred processing your request.'', [])
      | Returns ai \<Rightarrow>
          (case ai_error ai of
             Some e \<Rightarrow> (Failure 500 (''Error generating query: '' @ py_str e), [])
           | None \<Rightarrow>
               (let pipeline = ai_pipeline ai;
                    collection = collection_of ai;
                    answer_template = template_of ai;
                    chart_suggestion = ai_chart_suggestion ai;
                    (execution_result, calls) = engine_execute pipeline collection
                in case execution_result of
                     Raises \<Rightarrow>
                       (Failure 500 ''An unexpected error occurred processing your request.'', calls)
                   | Returns (EError msg) \<Rightarrow>
                       (Failure 500 (''Error executing query: '' @ msg), calls)
                   | Returns r \<Rightarrow>
                       (Success (format_answer r answer_template) pipeline
                          (build_chart chart_suggestion r), calls))))"

text \<open>
  A stand-in engine for examples: it returns a fixed result and records the one call it
  receives.
\<close>

definition fixed_engine ::
  "execution_result \<Rightarrow> stage list option \<Rightarrow> string \<Rightarrow>
   execution_result outcome \<times> (string \<times> stage list option) list" where
  "fixed_engine r pipeline collection = (Returns r, [(collection, pipeline)])"

text \<open>
  The inclusion rule in the words of the specification: a document qualifies when it has
  the bucket key \<^verbatim>\<open>_id\<close> and a numeric field other than \<^verbatim>\<open>_id\<close>. For a qualifying document
  \<open>pair_of\<close> is its entry \<^verbatim>\<open>name (measure)\<close> in the answer list and \<open>value_of\<close> its chart
  value; \<open>label_of\<close> is the chart label of a document with the bucket key. The loops above
  are compared with these.
\<close>

definition pair_of :: "document \<Rightarrow> string option" where
  "pair_of doc =
     (case map_of doc ''_id'' of
        None \<Rightarrow> None
      | Some name \<Rightarrow>
          (case find_numeric doc of
             None \<Rightarrow> None
           | Some v \<Rightarrow> Some (py_str name @ '' ('' @ format_comma v @ '')'')))"

definition has_bucket_key :: "document \<Rightarrow> bool" where
  "has_bucket_key doc = (map_of doc ''_id'' \<noteq> None)"

definition qualifies :: "document \<Rightarrow> bool" where
  "qualifies doc = (map_of doc ''_id'' \<noteq> None \<and> find_numeric doc \<noteq> None)"

definition label_of :: "document \<Rightarrow> string option" where
  "label_of doc = map_option py_str (map_of doc ''_id'')"

definition value_of :: "document \<Rightarrow> number option" where
  "value_of doc = (case map_of doc ''_id'' of None \<Rightarrow> None | Some name \<Rightarrow> find_numeric doc)"

section \<open>The execution engine\<close>

text \<open>
  \<^verbatim>\<open>MongoQueryEngine.execute\<close> (the architecture guide, lines 211-224): the pipeline goes to
  \<^verbatim>\<open>aggregate\<close> on the collection \<^verbatim>\<open>deliverywise\<close> as it is, with no check of its stages;
  the documents come back under the type tag \<^verbatim>\<open>result\<close>, and an exception of the driver
  becomes an \<^verbatim>\<open>error\<close> entry with its message. The method reads \<^verbatim>\<open>deliverywise\<close> whatever
  collection the view names. The driver call \<^verbatim>\<open>aggregate\<close> is a parameter: for a pipeline it
  gives the message of the exception it raises, or the documents. The second component of
  the result lists the calls made to the store.
\<close>

definition execute ::
  "(stage list option \<Rightarrow> string + document list) \<Rightarrow> stage list option \<Rightarrow> string \<Rightarrow>
   execution_result outcome \<times> (string \<times> stage list option) list" where
  "execute aggregate pipeline collection =
     (case aggregate pipeline of
        Inr result \<Rightarrow> (Returns (EOther ''result'' result), [(''deliverywise'', pipeline)])
      | Inl e \<Rightarrow> (Returns (EError e), [(''deliverywise'', pipeline)]))"


text \<open>A store for examples: the same three documents for every query.\<close>

definition sample_store :: "stage list option \<Rightarrow> string + document list" where
  "sample_store pipeline =
     Inr [[(''_id'', VStr ''A''), (''runs'', VNum (NInt 100))],
          [(''_id'', VStr ''B''), (''runs'', VNum (NInt 90))],
          [(''_id'', VStr ''C''), (''runs'', VNum (NInt 80))]]"

section \<open>The chat hook of the frontend\<close>

text \<open>
  \<^verbatim>\<open>useChat\<close> keeps the message list and the loading flag. A JavaScript string is a
  sequence of UTF-16 code units. \<^verbatim>\<open>trim\<close> removes white space and line terminators from
  both ends.
\<close>

type_synonym jsstring = "nat list"

definition js :: "string \<Rightarrow> jsstring" where
  "js s = map of_char s"

definition js_whitespace :: "nat \<Rightarrow> bool" where
  "js_whitespace c =
     (c \<in> set [9, 10, 11, 12, 13, 32, 160, 5760, 8232, 8233, 8239, 8287, 12288, 65279]
      \<or> (8192 \<le> c \<and> c \<le> 8202))"

definition trim :: "jsstring \<Rightarrow> jsstring" where
  "trim s = rev (dropWhile js_whitespace (rev (dropWhile js_whitespace s)))"

datatype role = User | Assistant

record 'c message =
  msg_id :: jsstring
  msg_role :: role
  msg_text :: jsstring
  msg_chartData :: "'c option"
  msg_query_executed :: "jsstring option"
  msg_error :: bool

text \<open>
  The backend's reply as the hook reads it: \<open>resp_answer\<close> is \<open>None\<close> when
  \<^verbatim>\<open>response.answer\<close> is not a string, \<open>resp_chart_data\<close> and \<open>resp_query_executed\<close> are
  \<open>None\<close> when the entry is missing or null.
\<close>

record 'c api_response =
  resp_answer :: "jsstring option"
  resp_chart_data :: "'c option"
  resp_query_executed :: "jsstring option"

record 'c chat_state =
  messages :: "'c message list"
  loading :: bool

text \<open>
  \<^verbatim>\<open>ask\<close> up to its \<^verbatim>\<open>await\<close> (lines 10-23): the new state and the request sent, if any.
  \<open>now\<close> is the reading of \<^verbatim>\<open>Date.now()\<close>; the question is \<open>None\<close> when it is undefined or
  null; \<open>loading\<close> is the flag as the callback sees it.
\<close>

definition ask_begin ::
  "'c chat_state \<Rightarrow> nat \<Rightarrow> jsstring option \<Rightarrow> 'c chat_state \<times> jsstring option" where
  "ask_begin st now question =
     (case map_option trim question of
        None \<Rightarrow> (st, None)
      | Some trimmed \<Rightarrow>
          (if trimmed = [] \<or> loading st then (st, None)
           else
             (let userMessage =
                    \<lparr>msg_id = js ''user-'' @ js (str_nat now), msg_role = User, msg_text = trimmed,
                     msg_chartData = None, msg_query_executed = None, msg_error = False\<rparr>
              in (st\<lparr>messages := messages st @ [userMessage], loading := True\<rparr>, Some trimmed))))"

text \<open>\<^verbatim>\<open>ask\<close> after the \<^verbatim>\<open>await\<close> (lines 23-45): the reply arrives, or the request fails.\<close>

definition ask_settle :: "'c chat_state \<Rightarrow> nat \<Rightarrow> 'c api_response outcome \<Rightarrow> 'c chat_state" where
  "ask_settle st now reply =
     (case reply of
        Returns response \<Rightarrow>
          (let assistantMessage =
                 \<lparr>msg_id = js ''bot-'' @ js (str_nat now), msg_role = Assistant,
                  msg_text = (case resp_answer response of
                                Some a \<Rightarrow> a
                              | None \<Rightarrow>
                                  js ''I processed your request but couldn't format the text response.''),
                  msg_chartData = resp_chart_data response,
                  msg_query_executed =
                    Some (case resp_query_executed response of
                            None \<Rightarrow> js ''Direct knowledge retrieval.''
                          | Some q \<Rightarrow> if q = [] then js ''Direct knowledge retrieval.'' else q),
                  msg_error = False\<rparr>
           in st\<lparr>messages := messages st @ [assistantMessage], loading := False\<rparr>)
      | Raises \<Rightarrow>
          (let errorMessage =
                 \<lparr>msg_id = js ''err-'' @ js (str_nat now), msg_role = Assistant,
                  msg_text = js (''I'm sorry, I encountered an error while fetching the statistics. ''
                                 @ ''Please try again in a moment.''),
                  msg_chartData = None, msg_query_executed = None, msg_error = True\<rparr>
           in st\<lparr>messages := messages st @ [errorMessage], loading := False\<rparr>))"

text \<open>
  One whole call of \<^verbatim>\<open>ask\<close>, with the backend as a parameter: the final state and the
  requests sent to the API.
\<close>

definition ask ::
  "(jsstring \<Rightarrow> 'c api_response outcome) \<Rightarrow> nat \<Rightarrow> nat \<Rightarrow> 'c chat_state \<Rightarrow> jsstring option \<Rightarrow>
   'c chat_state \<times> jsstring list" where
  "ask sendQuestion now1 now2 st question =
     (case ask_begin st now1 question of
        (st1, None) \<Rightarrow> (st1, [])
      | (st1, Some request) \<Rightarrow> (ask_settle st1 now2 (sendQuestion request), [request]))"

text \<open>A backend for examples: every request is rejected.\<close>

definition failing_api :: "jsstring \<Rightarrow> unit api_response outcome" where
  "failing_api request = Raises"

section \<open>Evaluation rules\<close>

lemma str_nat_small: "n < 10 \<Longrightarrow> str_nat n = [digit_char n]"
  by (simp add: str_nat.simps)

lemma str_nat_large: "\<not> n < 10 \<Longrightarrow> str_nat n = str_nat (n div 10) @ [digit_char (n mod 10)]"
  by (subst str_nat.simps) simp

lemma comma_nat_small: "n < 1000 \<Longrightarrow> comma_nat n = str_nat n"
  by (simp add: comma_nat.simps)

lemma comma_nat_large:
  "\<not> n < 1000 \<Longrightarrow> comma_nat n = comma_nat (n div 1000) @ '','' @ pad3 (n mod 1000)"
  by (subst comma_nat.simps) simp

lemmas num_eval =
  str_nat_small str_nat_large comma_nat_small comma_nat_large pad3_def digit_char_def
  comma_int_def str_int_def

lemma str_replace_Nil: "str_replace old new [] = (if old = [] then new else [])"
  by (simp add: str_replace.simps)

lemma str_replace_hit:
  "old \<noteq> [] \<Longrightarrow> take (length old) (c # cs) = old \<Longrightarrow>
   str_replace old new (c # cs) = new @ str_replace old new (drop (length old) (c # cs))"
  by (subst str_replace.simps) simp

lemma str_replace_miss:
  "old \<noteq> [] \<Longrightarrow> take (length old) (c # cs) \<noteq> old \<Longrightarrow>
   str_replace old new (c # cs) = c # str_replace old new cs"
  by (subst str_replace.simps) simp

lemmas replace_eval = str_replace_Nil str_replace_hit str_replace_miss

section \<open>Properties of the chat endpoint\<close>

lemma replace_no_brace:
  "CHR ''{'' \<notin> set s \<Longrightarrow> str_replace ''{result}'' new s = s"
proof (induction s)
  case Nil
  then show ?case by (simp add: str_replace_Nil)
next
  case (Cons c cs)
  then have "take (length ''{result}'') (c # cs) \<noteq> ''{result}''" by auto
  then have "str_replace ''{result}'' new (c # cs) = c # str_replace ''{result}'' new cs"
    by (intro str_replace_miss) simp_all
  with Cons show ?case by simp
qed

lemma replace_token_here:
  "str_replace ''{result}'' new (''{result}'' @ suf) = new @ str_replace ''{result}'' new suf"
  by (simp add: str_replace_hit)

lemma replace_after_prefix:
  "CHR ''{'' \<notin> set pre \<Longrightarrow>
   str_replace ''{result}'' new (pre @ ''{result}'' @ suf)
     = pre @ new @ str_replace ''{result}'' new suf"
proof (induction pre)
  case Nil
  then show ?case using replace_token_here by simp
next
  case (Cons c cs)
  then have "take (length ''{result}'') (c # (cs @ ''{result}'' @ suf)) \<noteq> ''{result}''" by auto
  then have "str_replace ''{result}'' new (c # (cs @ ''{result}'' @ suf))
             = c # str_replace ''{result}'' new (cs @ ''{result}'' @ suf)"
    by (intro str_replace_miss) simp_all
  with Cons show ?case by simp
qed

lemma post_success:
  assumes "ai_error ai = None"
    and "engine_execute (ai_pipeline ai) (collection_of ai) = (Returns r, calls)"
    and "\<forall>msg. r \<noteq> EError msg"
  shows "post engine_execute (Returns ai)
         = (Success (format_answer r (template_of ai)) (ai_pipeline ai)
              (build_chart (ai_chart_suggestion ai) r), calls)"
  using assms by (cases r) (simp_all add: post_def)

lemma chart_loop_eq:
  "chart_loop docs c
   = c\<lparr>chart_labels := chart_labels c @ List.map_filter label_of docs,
       chart_values := chart_values c @ List.map_filter value_of docs\<rparr>"
proof (induction docs arbitrary: c)
  case Nil
  show ?case by (simp add: List.map_filter_simps)
next
  case (Cons doc docs)
  show ?case
    by (simp add: Cons.IH List.map_filter_simps label_of_def value_of_def Let_def
             split: option.splits)
qed

lemma format_docs_eq: "format_docs docs formatted = formatted @ List.map_filter pair_of docs"
proof (induction docs arbitrary: formatted)
  case Nil
  show ?case by (simp add: List.map_filter_simps)
next
  case (Cons doc docs)
  show ?case
    by (simp add: Cons.IH List.map_filter_simps pair_of_def split: option.splits)
qed

lemma length_labels: "length (List.map_filter label_of docs) = length (filter has_bucket_key docs)"
  by (induction docs) (simp_all add: List.map_filter_simps label_of_def has_bucket_key_def split: option.splits)

lemma qualifies_iff: "qualifies doc = (value_of doc \<noteq> None)"
  by (simp add: qualifies_def value_of_def split: option.splits)

lemma qualifies_pair: "qualifies doc = (pair_of doc \<noteq> None)"
  by (simp add: qualifies_def pair_of_def split: option.splits)

lemma length_pairs: "length (List.map_filter pair_of docs) = length (filter qualifies docs)"
  by (induction docs) (simp_all add: List.map_filter_simps qualifies_pair split: option.splits)

lemma length_values: "length (List.map_filter value_of docs) = length (filter qualifies docs)"
  by (induction docs) (simp_all add: List.map_filter_simps qualifies_iff split: option.splits)

lemma qualifies_has_key: "qualifies doc \<Longrightarrow> has_bucket_key doc"
  by (simp add: qualifies_def has_bucket_key_def)

lemma filter_qualifies_le: "length (filter qualifies docs) \<le> length (filter has_bucket_key docs)"
  by (induction docs) (auto dest: qualifies_has_key)

lemma build_chart_Some:
  "build_chart chart_suggestion r = Some c \<Longrightarrow>
   \<exists>cs ty docs. chart_suggestion = Some cs \<and> map_of cs ''type'' = Some ty \<and> py_truthy ty \<and>
     r = EList docs \<and> 3 \<le> length docs \<and>
     c = chart_loop docs \<lparr>chart_type = ty,
           chart_title = (case map_of cs ''title'' of None \<Rightarrow> VStr ''Analysis'' | Some t \<Rightarrow> t),
           chart_labels = [], chart_values = []\<rparr>"
  by (auto simp: build_chart_def split: option.splits if_splits execution_result.splits)

subsection \<open>Oracle errors\<close>

text \<open>
  C7: when the oracle's answer carries an error entry, the request ends with the status 500
  and the answer \<^verbatim>\<open>Error generating query: ...\<close>. The response is the same whatever the
  engine is, and no call reaches the store: the engine, and with it validation and
  execution, is never run.
\<close>

theorem oracle_error_stops_request:
  "ai_error ai = Some e \<Longrightarrow>
   post engine_execute (Returns ai) = (Failure 500 (''Error generating query: '' @ py_str e), [])"
  by (simp add: post_def)

theorem oracle_error_stops_request_witness:
  "ai_error \<lparr>ai_error = Some (VStr ''unparsable output''), ai_pipeline = None,
             ai_collection = None, ai_answer_template = None, ai_chart_suggestion = None\<rparr>
     = Some (VStr ''unparsable output'')
   \<and> post (execute sample_store)
        (Returns \<lparr>ai_error = Some (VStr ''unparsable output''), ai_pipeline = None,
                  ai_collection = None, ai_answer_template = None, ai_chart_suggestion = None\<rparr>)
     = (Failure 500 ''Error generating query: unparsable output'', [])"
  using oracle_error_stops_request
    [of "\<lparr>ai_error = Some (VStr ''unparsable output''), ai_pipeline = None,
          ai_collection = None, ai_answer_template = None, ai_chart_suggestion = None\<rparr>"
        "VStr ''unparsable output''" "execute sample_store"]
  by simp

subsection \<open>Empty results\<close>

text \<open>
  C2, as the claim states it, fails: for an empty result and the template
  \<^verbatim>\<open>{result} scored most\<close> the answer is not \<^verbatim>\<open>No data found\<close>, the rest of the template is
  kept.
\<close>

theorem empty_answer_counterexample:
  "answer (fst (post (fixed_engine EEmpty)
     (Returns \<lparr>ai_error = None, ai_pipeline = None, ai_collection = None,
               ai_answer_template = Some ''{result} scored most'',
               ai_chart_suggestion = None\<rparr>)))
   \<noteq> ''No data found''"
  by (simp add: post_def fixed_engine_def format_answer_def build_chart_def collection_of_def
        template_of_def replace_eval)

text \<open>
  C2, amended: for an empty result the answer is the template with every \<^verbatim>\<open>{result}\<close> token
  replaced by \<^verbatim>\<open>No data found\<close>, and there is no chart. The answer is exactly
  \<^verbatim>\<open>No data found\<close> when the template is the token alone (the default template); for a
  template with one token and no other opening brace, the text before and after the token
  is kept around \<^verbatim>\<open>No data found\<close>.
\<close>

theorem empty_result_answer:
  assumes "ai_error ai = None"
    and "engine_execute (ai_pipeline ai) (collection_of ai) = (Returns EEmpty, calls)"
    and "t = template_of ai"
  shows "post engine_execute (Returns ai)
           = (Success (str_replace ''{result}'' ''No data found'' t) (ai_pipeline ai) None, calls)
         \<and> (t = ''{result}'' \<longrightarrow> str_replace ''{result}'' ''No data found'' t = ''No data found'')
         \<and> (\<forall>pre suf. t = pre @ ''{result}'' @ suf \<and> CHR ''{'' \<notin> set pre \<and> CHR ''{'' \<notin> set suf \<longrightarrow>
              str_replace ''{result}'' ''No data found'' t = pre @ ''No data found'' @ suf)"
proof (intro conjI allI impI)
  show "post engine_execute (Returns ai)
           = (Success (str_replace ''{result}'' ''No data found'' t) (ai_pipeline ai) None, calls)"
    using assms by (simp add: post_def format_answer_def build_chart_def split: option.splits)
next
  assume "t = ''{result}''"
  then show "str_replace ''{result}'' ''No data found'' t = ''No data found''"
    by (simp add: replace_eval)
next
  fix pre suf
  assume "t = pre @ ''{result}'' @ suf \<and> CHR ''{'' \<notin> set pre \<and> CHR ''{'' \<notin> set suf"
  then have a: "t = pre @ ''{result}'' @ suf" and b: "CHR ''{'' \<notin> set pre"
    and c: "CHR ''{'' \<notin> set suf" by simp_all
  have "str_replace ''{result}'' ''No data found'' (pre @ ''{result}'' @ suf)
        = pre @ ''No data found'' @ str_replace ''{result}'' ''No data found'' suf"
    by (rule replace_after_prefix [OF b])
  also have "str_replace ''{result}'' ''No data found'' suf = suf"
    by (rule replace_no_brace [OF c])
  finally show "str_replace ''{result}'' ''No data found'' t = pre @ ''No data found'' @ suf"
    unfolding a .
qed

theorem empty_result_answer_witness:
  "ai_error \<lparr>ai_error = None, ai_pipeline = None, ai_collection = None,
             ai_answer_template = Some ''{result} scored most'',
             ai_chart_suggestion = None\<rparr> = None
   \<and> fixed_engine EEmpty None ''deliverywise'' = (Returns EEmpty, [(''deliverywise'', None)])
   \<and> post (fixed_engine EEmpty)
     (Returns \<lparr>ai_error = None, ai_pipeline = None, ai_collection = None,
               ai_answer_template = Some ''{result} scored most'',
               ai_chart_suggestion = None\<rparr>)
   = (Success ''No data found scored most'' None None, [(''deliverywise'', None)])"
  using empty_result_answer
    [of "\<lparr>ai_error = None, ai_pipeline = None, ai_collection = None,
          ai_answer_template = Some ''{result} scored most'',
          ai_chart_suggestion = None\<rparr>"
        "fixed_engine EEmpty" "[(''deliverywise'', None)]" "''{result} scored most''"]
  by (simp add: fixed_engine_def collection_of_def template_of_def replace_eval)

subsection \<open>Answers for one document and for lists\<close>

text \<open>
  C5: for a single document with the bucket key \<^verbatim>\<open>_id\<close> and a numeric field, the claim
  has the \<^verbatim>\<open>{result}\<close> token rendered as \<^verbatim>\<open>name with measure\<close> whatever the measure is,
  0 included. The view tests the measure by its truth value (line 168, \<^verbatim>\<open>if numeric_val:\<close>),
  so a measure of 0 is dropped: the document \<^verbatim>\<open>{"_id": "AB de Villiers", "ducks": 0}\<close> with
  the template \<^verbatim>\<open>{result}\<close> gives \<^verbatim>\<open>AB de Villiers\<close>, not \<^verbatim>\<open>AB de Villiers with 0\<close>.
\<close>

theorem zero_measure_dropped:
  "post (fixed_engine (EDict [(''_id'', VStr ''AB de Villiers''), (''ducks'', VNum (NInt 0))]))
     (Returns \<lparr>ai_error = None, ai_pipeline = None, ai_collection = None,
               ai_answer_template = Some ''{result}'', ai_chart_suggestion = None\<rparr>)
   = (Success ''AB de Villiers'' None None, [(''deliverywise'', None)])"
  by (simp add: post_def fixed_engine_def build_chart_def format_answer_def result_str_def
        collection_of_def template_of_def replace_eval)

text \<open>
  C6: for a list result with more than one qualifying document, the \<^verbatim>\<open>{result}\<close> token is
  replaced by the entries \<^verbatim>\<open>name (measure)\<close> of the qualifying documents, joined by a comma
  and a space, one entry for each qualifying document, in the order of the list; the
  documents without \<^verbatim>\<open>_id\<close> or without a numeric field are left out (\<open>List.map_filter\<close>
  keeps the entries that exist, in order).
\<close>

theorem list_answer:
  assumes "ai_error ai = None"
    and "engine_execute (ai_pipeline ai) (collection_of ai) = (Returns (EList docs), calls)"
    and "1 < length (filter qualifies docs)"
  shows "answer (fst (post engine_execute (Returns ai)))
         = str_replace ''{result}'' (join '', '' (List.map_filter pair_of docs)) (template_of ai)
       \<and> length (List.map_filter pair_of docs) = length (filter qualifies docs)"
proof -
  have "answer (fst (post engine_execute (Returns ai))) = format_answer (EList docs) (template_of ai)"
    using post_success [of ai engine_execute "EList docs" calls] assms(1,2) by simp
  moreover from assms(3) have "length docs \<noteq> 1"
    by (cases docs) (auto split: if_splits)
  then have "format_answer (EList docs) (template_of ai)
     = str_replace ''{result}'' (join '', '' (format_docs docs [])) (template_of ai)"
    by (auto simp: format_answer_def split: list.splits)
  ultimately show ?thesis by (simp add: format_docs_eq length_pairs)
qed

theorem list_answer_witness:
  "1 < length (filter qualifies
         [[(''_id'', VStr ''A''), (''runs'', VNum (NInt 1234))],
          [(''team'', VStr ''X''), (''runs'', VNum (NInt 7))],
          [(''_id'', VStr ''B''), (''runs'', VNum (NInt 90))]])
   \<and> answer (fst (post
       (fixed_engine (EList
          [[(''_id'', VStr ''A''), (''runs'', VNum (NInt 1234))],
           [(''team'', VStr ''X''), (''runs'', VNum (NInt 7))],
           [(''_id'', VStr ''B''), (''runs'', VNum (NInt 90))]]))
       (Returns \<lparr>ai_error = None, ai_pipeline = None, ai_collection = None,
                 ai_answer_template = Some ''Top: {result}'', ai_chart_suggestion = None\<rparr>)))
     = ''Top: A (1,234), B (90)''"
  using list_answer
    [of "\<lparr>ai_error = None, ai_pipeline = None, ai_collection = None,
          ai_answer_template = Some ''Top: {result}'', ai_chart_suggestion = None\<rparr>"
        "fixed_engine (EList
          [[(''_id'', VStr ''A''), (''runs'', VNum (NInt 1234))],
           [(''team'', VStr ''X''), (''runs'', VNum (NInt 7))],
           [(''_id'', VStr ''B''), (''runs'', VNum (NInt 90))]])"
        "[[(''_id'', VStr ''A''), (''runs'', VNum (NInt 1234))],
          [(''team'', VStr ''X''), (''runs'', VNum (NInt 7))],
          [(''_id'', VStr ''B''), (''runs'', VNum (NInt 90))]]"
        "[(''deliverywise'', None)]"]
  by (simp add: fixed_engine_def collection_of_def template_of_def qualifies_def pair_of_def
        List.map_filter_simps replace_eval num_eval)

subsection \<open>Charts\<close>

text \<open>
  C3, as the claim states it, fails: of the three documents below only one qualifies, and
  with a chart suggestion of type \<^verbatim>\<open>bar\<close> the response carries a chart.
\<close>

theorem chart_below_three_counterexample:
  "length (filter qualifies
     [[(''_id'', VStr ''A''), (''runs'', VNum (NInt 100))],
      [(''_id'', VStr ''B''), (''team'', VStr ''X'')],
      [(''team'', VStr ''Y'')]]) = 1
   \<and> chart (fst (post
       (fixed_engine (EList
          [[(''_id'', VStr ''A''), (''runs'', VNum (NInt 100))],
           [(''_id'', VStr ''B''), (''team'', VStr ''X'')],
           [(''team'', VStr ''Y'')]]))
       (Returns \<lparr>ai_error = None, ai_pipeline = None, ai_collection = None,
                 ai_answer_template = None,
                 ai_chart_suggestion = Some [(''type'', VStr ''bar'')]\<rparr>)))
     = Some \<lparr>chart_type = VStr ''bar'', chart_title = VStr ''Analysis'',
             chart_labels = [''A'', ''B''], chart_values = [NInt 100]\<rparr>"
  by (simp add: post_def fixed_engine_def build_chart_def qualifies_def pair_of_def
        collection_of_def template_of_def)

text \<open>
  C3, amended: a chart is built exactly when the chart suggestion has a type that is true
  in Python (present, not null, not empty), the result is a list, and the list has at least
  3 documents, counting all of them, qualifying or not. In every other case the chart is
  null; in particular for every list of fewer than 3 documents.
\<close>

theorem chart_built_iff:
  assumes "ai_error ai = None"
    and "engine_execute (ai_pipeline ai) (collection_of ai) = (Returns r, calls)"
    and "\<forall>msg. r \<noteq> EError msg"
  shows "(chart (fst (post engine_execute (Returns ai))) \<noteq> None)
         = (\<exists>cs ty docs. ai_chart_suggestion ai = Some cs \<and> map_of cs ''type'' = Some ty \<and>
              py_truthy ty \<and> r = EList docs \<and> 3 \<le> length docs)"
proof -
  have "chart (fst (post engine_execute (Returns ai))) = build_chart (ai_chart_suggestion ai) r"
    using post_success [of ai engine_execute r calls] assms by simp
  moreover have "(build_chart (ai_chart_suggestion ai) r \<noteq> None)
         = (\<exists>cs ty docs. ai_chart_suggestion ai = Some cs \<and> map_of cs ''type'' = Some ty \<and>
              py_truthy ty \<and> r = EList docs \<and> 3 \<le> length docs)"
    by (auto simp: build_chart_def split: option.splits execution_result.splits)
  ultimately show ?thesis by simp
qed

theorem chart_built_iff_witness:
  "ai_error \<lparr>ai_error = None, ai_pipeline = None, ai_collection = None,
             ai_answer_template = None,
             ai_chart_suggestion = Some [(''type'', VStr ''bar'')]\<rparr> = None
   \<and> (\<forall>msg. EList [[(''_id'', VStr ''A'')], [(''_id'', VStr ''B'')]] \<noteq> EError msg)
   \<and> chart (fst (post
       (fixed_engine (EList [[(''_id'', VStr ''A'')], [(''_id'', VStr ''B'')]]))
       (Returns \<lparr>ai_error = None, ai_pipeline = None, ai_collection = None,
                 ai_answer_template = None,
                 ai_chart_suggestion = Some [(''type'', VStr ''bar'')]\<rparr>)))
     = None"
  using chart_built_iff
    [of "\<lparr>ai_error = None, ai_pipeline = None, ai_collection = None,
          ai_answer_template = None,
          ai_chart_suggestion = Some [(''type'', VStr ''bar'')]\<rparr>"
        "fixed_engine (EList [[(''_id'', VStr ''A'')], [(''_id'', VStr ''B'')]])"
        "EList [[(''_id'', VStr ''A'')], [(''_id'', VStr ''B'')]]"
        "[(''deliverywise'', None)]"]
  by (simp add: fixed_engine_def collection_of_def)

text \<open>
  C4: the claim has the labels and the values of every chart of the same length and in the
  order of the documents, also when a document has the bucket key and no numeric field. The
  loop of lines 218-225 appends the label before it looks for a numeric field, so such a
  document leaves a label without a value: for the three documents below the labels are
  A, B, C and the values 100, 80, and the value 80 of C stands at the position of B. The list
  of the answer (lines 194-201) skips the same document as a whole.
\<close>

theorem chart_labels_values_misaligned:
  "post (fixed_engine (EList
          [[(''_id'', VStr ''A''), (''runs'', VNum (NInt 100))],
           [(''_id'', VStr ''B'')],
           [(''_id'', VStr ''C''), (''runs'', VNum (NInt 80))]]))
     (Returns \<lparr>ai_error = None, ai_pipeline = None, ai_collection = None,
               ai_answer_template = Some ''{result}'',
               ai_chart_suggestion = Some [(''type'', VStr ''bar'')]\<rparr>)
   = (Success ''A (100), C (80)'' None
        (Some \<lparr>chart_type = VStr ''bar'', chart_title = VStr ''Analysis'',
               chart_labels = [''A'', ''B'', ''C''], chart_values = [NInt 100, NInt 80]\<rparr>),
      [(''deliverywise'', None)])"
  by (simp add: post_def fixed_engine_def build_chart_def format_answer_def
        collection_of_def template_of_def replace_eval num_eval)

text \<open>
  C8: in a chart that is built, every document with the bucket key \<^verbatim>\<open>_id\<close> gives a label,
  and gives a value only if it also has a numeric field other than \<^verbatim>\<open>_id\<close>, both in the
  order of the documents. So there are as many labels as documents with the key, as many
  values as qualifying documents, and never more values than labels.
\<close>

theorem chart_values_not_longer:
  assumes "ai_error ai = None"
    and "engine_execute (ai_pipeline ai) (collection_of ai) = (Returns (EList docs), calls)"
    and "chart (fst (post engine_execute (Returns ai))) = Some c"
  shows "chart_labels c = List.map_filter label_of docs
       \<and> chart_values c = List.map_filter value_of docs
       \<and> length (chart_labels c) = length (filter has_bucket_key docs)
       \<and> length (chart_values c) = length (filter qualifies docs)
       \<and> length (chart_values c) \<le> length (chart_labels c)"
proof -
  have "chart (fst (post engine_execute (Returns ai)))
        = build_chart (ai_chart_suggestion ai) (EList docs)"
    using post_success [of ai engine_execute "EList docs" calls] assms(1,2) by simp
  with assms(3) have "build_chart (ai_chart_suggestion ai) (EList docs) = Some c" by simp
  from build_chart_Some [OF this] obtain c0 where "c = chart_loop docs c0"
    and "chart_labels c0 = []" and "chart_values c0 = []" by auto
  then have l: "chart_labels c = List.map_filter label_of docs"
    and v: "chart_values c = List.map_filter value_of docs"
    by (simp_all add: chart_loop_eq)
  show ?thesis
    unfolding l v length_labels length_values
    using filter_qualifies_le [of docs] by simp
qed

theorem chart_values_not_longer_witness:
  "chart (fst (post
       (fixed_engine (EList
          [[(''_id'', VStr ''A''), (''runs'', VNum (NInt 100))],
           [(''_id'', VStr ''B''), (''team'', VStr ''X'')],
           [(''team'', VStr ''Y''), (''runs'', VNum (NInt 5))],
           [(''_id'', VStr ''C''), (''runs'', VNum (NInt 80))]]))
       (Returns \<lparr>ai_error = None, ai_pipeline = None, ai_collection = None,
                 ai_answer_template = None,
                 ai_chart_suggestion = Some [(''type'', VStr ''line'')]\<rparr>)))
     = Some \<lparr>chart_type = VStr ''line'', chart_title = VStr ''Analysis'',
             chart_labels = [''A'', ''B'', ''C''], chart_values = [NInt 100, NInt 80]\<rparr>
   \<and> length [NInt 100, NInt 80] \<le> length [''A'', ''B'', ''C'']"
  using chart_values_not_longer
    [of "\<lparr>ai_error = None, ai_pipeline = None, ai_collection = None,
          ai_answer_template = None,
          ai_chart_suggestion = Some [(''type'', VStr ''line'')]\<rparr>"
        "fixed_engine (EList
          [[(''_id'', VStr ''A''), (''runs'', VNum (NInt 100))],
           [(''_id'', VStr ''B''), (''team'', VStr ''X'')],
           [(''team'', VStr ''Y''), (''runs'', VNum (NInt 5))],
           [(''_id'', VStr ''C''), (''runs'', VNum (NInt 80))]])"
        "[[(''_id'', VStr ''A''), (''runs'', VNum (NInt 100))],
          [(''_id'', VStr ''B''), (''team'', VStr ''X'')],
          [(''team'', VStr ''Y''), (''runs'', VNum (NInt 5))],
          [(''_id'', VStr ''C''), (''runs'', VNum (NInt 80))]]"
        "[(''deliverywise'', None)]"
        "\<lparr>chart_type = VStr ''line'', chart_title = VStr ''Analysis'',
          chart_labels = [''A'', ''B'', ''C''], chart_values = [NInt 100, NInt 80]\<rparr>"]
  by (simp add: post_def fixed_engine_def build_chart_def collection_of_def template_of_def
        label_of_def value_of_def has_bucket_key_def qualifies_def pair_of_def)

text \<open>
  C9: when a chart is built and the chart suggestion has no \<^verbatim>\<open>title\<close> entry, the title of
  the chart is the string \<^verbatim>\<open>Analysis\<close>, and the type of the chart is the value of the
  suggestion's \<^verbatim>\<open>type\<close> entry, unchanged.
\<close>

theorem chart_title_default:
  assumes "ai_error ai = None"
    and "engine_execute (ai_pipeline ai) (collection_of ai) = (Returns r, calls)"
    and "chart (fst (post engine_execute (Returns ai))) = Some c"
    and "\<forall>msg. r \<noteq> EError msg"
    and "ai_chart_suggestion ai = Some cs"
    and "map_of cs ''title'' = None"
  shows "chart_title c = VStr ''Analysis'' \<and> map_of cs ''type'' = Some (chart_type c)"
proof -
  have "chart (fst (post engine_execute (Returns ai))) = build_chart (ai_chart_suggestion ai) r"
    using post_success [of ai engine_execute r calls] assms(1,2,4) by simp
  with assms(3,5) have "build_chart (Some cs) r = Some c" by simp
  from build_chart_Some [OF this] assms(6) show ?thesis
    by (auto simp: chart_loop_eq)
qed

theorem chart_title_default_witness:
  "map_of [(''type'', VStr ''pie'')] ''title'' = None
   \<and> chart (fst (post
       (fixed_engine (EList
          [[(''_id'', VStr ''A''), (''runs'', VNum (NInt 100))],
           [(''_id'', VStr ''B''), (''runs'', VNum (NInt 90))],
           [(''_id'', VStr ''C''), (''runs'', VNum (NInt 80))]]))
       (Returns \<lparr>ai_error = None, ai_pipeline = Some [], ai_collection = None,
                 ai_answer_template = None,
                 ai_chart_suggestion = Some [(''type'', VStr ''pie'')]\<rparr>)))
     = Some \<lparr>chart_type = VStr ''pie'', chart_title = VStr ''Analysis'',
             chart_labels = [''A'', ''B'', ''C''],
             chart_values = [NInt 100, NInt 90, NInt 80]\<rparr>
   \<and> chart_title \<lparr>chart_type = VStr ''pie'', chart_title = VStr ''Analysis'',
             chart_labels = [''A'', ''B'', ''C''],
             chart_values = [NInt 100, NInt 90, NInt 80]\<rparr> = VStr ''Analysis''"
  using chart_title_default
    [of "\<lparr>ai_error = None, ai_pipeline = Some [], ai_collection = None,
          ai_answer_template = None,
          ai_chart_suggestion = Some [(''type'', VStr ''pie'')]\<rparr>"
        "fixed_engine (EList
          [[(''_id'', VStr ''A''), (''runs'', VNum (NInt 100))],
           [(''_id'', VStr ''B''), (''runs'', VNum (NInt 90))],
           [(''_id'', VStr ''C''), (''runs'', VNum (NInt 80))]])"
        "EList [[(''_id'', VStr ''A''), (''runs'', VNum (NInt 100))],
                [(''_id'', VStr ''B''), (''runs'', VNum (NInt 90))],
                [(''_id'', VStr ''C''), (''runs'', VNum (NInt 80))]]"
        "[(''deliverywise'', Some [])]"
        "\<lparr>chart_type = VStr ''pie'', chart_title = VStr ''Analysis'',
          chart_labels = [''A'', ''B'', ''C''],
          chart_values = [NInt 100, NInt 90, NInt 80]\<rparr>"
        "[(''type'', VStr ''pie'')]"]
  by (simp add: post_def fixed_engine_def build_chart_def collection_of_def template_of_def
        Let_def)

subsection \<open>Pipelines with stages outside the allow-list\<close>




section \<open>Properties of the chat hook\<close>

text \<open>
  C10: when the question is missing or trims to the empty string, or when \<open>loading\<close> is
  true, \<^verbatim>\<open>ask\<close> returns at once: the messages and the loading flag are as before and no
  request is sent to the API.
\<close>

theorem ask_ignored:
  assumes "(case question of None \<Rightarrow> True | Some q \<Rightarrow> trim q = []) \<or> loading st"
  shows "ask sendQuestion now1 now2 st question = (st, [])"
  using assms by (auto simp: ask_def ask_begin_def split: option.splits)

theorem ask_ignored_witness:
  "trim (js ''  '') = []
   \<and> ask failing_api 1 2 \<lparr>messages = [], loading = False\<rparr> (Some (js ''  ''))
       = (\<lparr>messages = [], loading = False\<rparr>, [])
   \<and> ask failing_api 1 2 \<lparr>messages = [], loading = True\<rparr> (Some (js ''Who scored most?''))
       = (\<lparr>messages = [], loading = True\<rparr>, [])"
  using ask_ignored [of "Some (js ''  '')" "\<lparr>messages = [], loading = False\<rparr>" failing_api 1 2]
    ask_ignored [of "Some (js ''Who scored most?'')" "\<lparr>messages = [], loading = True\<rparr>"
                    failing_api 1 2]
  by (simp add: trim_def js_def js_whitespace_def)

end
